theory Spec2Isabelle
  imports Complex_Main
begin

section \<open>Arc-length traversal of vector paths (PathTraversalState.cpp)\<close>

text \<open>
  The program is read twice. The first reading, in this section, takes the C++ type
  \<open>float\<close> as \<open>real\<close>: arithmetic is exact, \<open>sqrtf\<close> is the real square root, and there
  is no rounding, overflow, infinity or NaN; the literal \<open>0.00001f\<close> is \<open>1 / 100000\<close>. It
  carries the properties that depend on the control flow alone. The second reading, in
  the next section, takes \<open>float\<close> as IEEE 754 binary32 and carries what depends on
  rounding. A \<open>FloatPoint\<close> is the pair of its \<open>x()\<close> and \<open>y()\<close> coordinates.
\<close>

type_synonym FloatPoint = "real \<times> real"

definition kPathSegmentLengthTolerance :: real where
  "kPathSegmentLengthTolerance = 1 / 100000"

definition midPoint :: "FloatPoint \<Rightarrow> FloatPoint \<Rightarrow> FloatPoint" where
  "midPoint first second = ((fst first + fst second) / 2, (snd first + snd second) / 2)"

definition distanceLine :: "FloatPoint \<Rightarrow> FloatPoint \<Rightarrow> real" where
  "distanceLine startp endp =
     sqrt ((fst endp - fst startp) * (fst endp - fst startp)
         + (snd endp - snd startp) * (snd endp - snd startp))"

subsection \<open>Curve primitives\<close>

datatype QuadraticBezier =
  QuadraticBezier (q_start: FloatPoint) (q_control: FloatPoint) (q_end: FloatPoint)

definition q_approximateDistance :: "QuadraticBezier \<Rightarrow> real" where
  "q_approximateDistance c =
     distanceLine (q_start c) (q_control c) + distanceLine (q_control c) (q_end c)"

text \<open>\<open>split\<close> writes its two out-parameters; the model returns them as the pair
  \<open>(left, right)\<close>.\<close>

definition q_split :: "QuadraticBezier \<Rightarrow> QuadraticBezier \<times> QuadraticBezier" where
  "q_split c =
     (let left_control = midPoint (q_start c) (q_control c);
          right_control = midPoint (q_control c) (q_end c);
          leftControlToRightControl = midPoint left_control right_control
      in (QuadraticBezier (q_start c) left_control leftControlToRightControl,
          QuadraticBezier leftControlToRightControl right_control (q_end c)))"

datatype CubicBezier =
  CubicBezier (c_start: FloatPoint) (c_control1: FloatPoint) (c_control2: FloatPoint)
    (c_end: FloatPoint)

definition c_approximateDistance :: "CubicBezier \<Rightarrow> real" where
  "c_approximateDistance c =
     distanceLine (c_start c) (c_control1 c) + distanceLine (c_control1 c) (c_control2 c)
       + distanceLine (c_control2 c) (c_end c)"

definition c_split :: "CubicBezier \<Rightarrow> CubicBezier \<times> CubicBezier" where
  "c_split c =
     (let startToControl1 = midPoint (c_control1 c) (c_control2 c);
          left_control1 = midPoint (c_start c) (c_control1 c);
          left_control2 = midPoint left_control1 startToControl1;
          right_control2 = midPoint (c_control2 c) (c_end c);
          right_control1 = midPoint right_control2 startToControl1;
          leftControl2ToRightControl1 = midPoint left_control2 right_control1
      in (CubicBezier (c_start c) left_control1 left_control2 leftControl2ToRightControl1,
          CubicBezier leftControl2ToRightControl1 right_control1 right_control2 (c_end c)))"

text \<open>
  \<open>curveLength\<close> is a template over \<open>CurveType\<close>, instantiated at the two curve
  structs. The model takes the sum of the two and dispatches the four members the
  template uses.
\<close>

datatype CurveType = Quadratic QuadraticBezier | Cubic CubicBezier

fun approximateDistance :: "CurveType \<Rightarrow> real" where
  "approximateDistance (Quadratic c) = q_approximateDistance c"
| "approximateDistance (Cubic c) = c_approximateDistance c"

fun splitCurve :: "CurveType \<Rightarrow> CurveType \<times> CurveType" where
  "splitCurve (Quadratic c) = (Quadratic (fst (q_split c)), Quadratic (snd (q_split c)))"
| "splitCurve (Cubic c) = (Cubic (fst (c_split c)), Cubic (snd (c_split c)))"

fun curveStart :: "CurveType \<Rightarrow> FloatPoint" where
  "curveStart (Quadratic c) = q_start c"
| "curveStart (Cubic c) = c_start c"

fun curveEnd :: "CurveType \<Rightarrow> FloatPoint" where
  "curveEnd (Quadratic c) = q_end c"
| "curveEnd (Cubic c) = c_end c"

subsection \<open>Traversal state\<close>

text \<open>
  Modelled from the spec: the declarations of \<open>PathTraversalState.h\<close> (the action
  enumeration and the member list) are not part of the sources; the spec's data model
  names three actions and the fields below. The segment index is an integer the
  operations never touch.
\<close>

datatype PathTraversalAction =
  TraversalTotalLength | TraversalPointAtLength | TraversalNormalAngleAtLength

record PathTraversalState =
  m_action :: PathTraversalAction
  m_success :: bool
  m_current :: FloatPoint
  m_start :: FloatPoint
  m_control1 :: FloatPoint
  m_control2 :: FloatPoint
  m_totalLength :: real
  m_segmentIndex :: int
  m_desiredLength :: real
  m_previous :: FloatPoint
  m_normalAngle :: real

subsection \<open>Geometry of the control polygon\<close>

text \<open>Points are read as complex numbers so that the norm's triangle inequality applies.\<close>

definition toC :: "FloatPoint \<Rightarrow> complex" where
  "toC p = Complex (fst p) (snd p)"

lemma distanceLine_cmod: "distanceLine p q = cmod (toC q - toC p)"
  by (simp add: distanceLine_def toC_def cmod_def power2_eq_square)

lemma toC_midPoint: "toC (midPoint p q) = (toC p + toC q) / 2"
  by (simp add: midPoint_def toC_def complex_eq_iff)

lemma distanceLine_nonneg: "0 \<le> distanceLine p q"
  by (simp add: distanceLine_cmod)

lemma distanceLine_triangle: "distanceLine p r \<le> distanceLine p q + distanceLine q r"
proof -
  have "toC r - toC p = (toC q - toC p) + (toC r - toC q)" by simp
  then show ?thesis
    unfolding distanceLine_cmod by (metis norm_triangle_ineq)
qed

lemma distanceLine_same: "distanceLine p p = 0"
  by (simp add: distanceLine_def)

lemma distanceLine_horizontal: "distanceLine (a, y) (b, y) = \<bar>b - a\<bar>"
  by (simp add: distanceLine_def)

lemma q_split_left_approx:
  "q_approximateDistance (fst (q_split c)) =
     distanceLine (q_start c) (q_control c) / 2 + distanceLine (q_start c) (q_end c) / 4"
proof -
  obtain s k e where c: "c = QuadraticBezier s k e" by (cases c)
  have 1: "(toC s + toC k) / 2 - toC s = (toC k - toC s) / 2"
    by (simp add: field_simps)
  have 2: "((toC s + toC k) / 2 + (toC k + toC e) / 2) / 2 - (toC s + toC k) / 2 = (toC e - toC s) / 4"
    by (simp add: field_simps)
  show ?thesis
    by (simp add: c q_split_def q_approximateDistance_def Let_def distanceLine_cmod toC_midPoint 1 2 norm_divide)
qed

lemma q_split_right_approx:
  "q_approximateDistance (snd (q_split c)) =
     distanceLine (q_start c) (q_end c) / 4 + distanceLine (q_control c) (q_end c) / 2"
proof -
  obtain s k e where c: "c = QuadraticBezier s k e" by (cases c)
  have 1: "toC e - (toC k + toC e) / 2 = (toC e - toC k) / 2"
    by (simp add: field_simps)
  have 2: "(toC k + toC e) / 2 - ((toC s + toC k) / 2 + (toC k + toC e) / 2) / 2 = (toC e - toC s) / 4"
    by (simp add: field_simps)
  show ?thesis
    by (simp add: c q_split_def q_approximateDistance_def Let_def distanceLine_cmod toC_midPoint 1 2 norm_divide)
qed

lemma c_split_left_approx:
  "c_approximateDistance (fst (c_split c)) =
     distanceLine (c_start c) (c_control1 c) / 2 + distanceLine (c_start c) (c_control2 c) / 4
       + cmod ((toC (c_end c) - toC (c_control2 c)) + 2 * (toC (c_control2 c) - toC (c_control1 c)) + (toC (c_control1 c) - toC (c_start c))) / 8"
proof -
  obtain s k1 k2 e where c: "c = CubicBezier s k1 k2 e" by (cases c)
  have 1: "(toC s + toC k1) / 2 - toC s = (toC k1 - toC s) / 2"
    by (simp add: field_simps)
  have 2: "((toC s + toC k1) / 2 + (toC k1 + toC k2) / 2) / 2 - (toC s + toC k1) / 2 = (toC k2 - toC s) / 4"
    by (simp add: field_simps)
  have 3: "(((toC s + toC k1) / 2 + (toC k1 + toC k2) / 2) / 2 + ((toC k2 + toC e) / 2 + (toC k1 + toC k2) / 2) / 2) / 2
            - ((toC s + toC k1) / 2 + (toC k1 + toC k2) / 2) / 2
          = ((toC e - toC k2) + 2 * (toC k2 - toC k1) + (toC k1 - toC s)) / 8"
    by (simp add: field_simps)
  show ?thesis
    by (simp add: c c_split_def c_approximateDistance_def Let_def distanceLine_cmod toC_midPoint 1 2 3 norm_divide)
qed

lemma c_split_right_approx:
  "c_approximateDistance (snd (c_split c)) =
     cmod ((toC (c_end c) - toC (c_control2 c)) + 2 * (toC (c_control2 c) - toC (c_control1 c)) + (toC (c_control1 c) - toC (c_start c))) / 8
     + distanceLine (c_control1 c) (c_end c) / 4 + distanceLine (c_control2 c) (c_end c) / 2"
proof -
  obtain s k1 k2 e where c: "c = CubicBezier s k1 k2 e" by (cases c)
  have 1: "toC e - (toC k2 + toC e) / 2 = (toC e - toC k2) / 2"
    by (simp add: field_simps)
  have 2: "(toC k2 + toC e) / 2 - ((toC k2 + toC e) / 2 + (toC k1 + toC k2) / 2) / 2 = (toC e - toC k1) / 4"
    by (simp add: field_simps)
  have 3: "((toC k2 + toC e) / 2 + (toC k1 + toC k2) / 2) / 2 - 
           (((toC s + toC k1) / 2 + (toC k1 + toC k2) / 2) / 2 + ((toC k2 + toC e) / 2 + (toC k1 + toC k2) / 2) / 2) / 2
          = ((toC e - toC k2) + 2 * (toC k2 - toC k1) + (toC k1 - toC s)) / 8"
    by (simp add: field_simps)
  show ?thesis
    by (simp add: c c_split_def c_approximateDistance_def Let_def distanceLine_cmod toC_midPoint 1 2 3 norm_divide)
qed

subsection \<open>Subdivision shrinks the control polygon\<close>

text \<open>
  Each half of a split has a control polygon at most 7/8 as long as its parent's, and a
  piece is only split while its control polygon is longer than the tolerance. Over the
  reals this bounds the depth of the subdivision, which is what makes the loop below and
  the recursive length total functions.
\<close>

definition splitDepth :: "CurveType \<Rightarrow> nat" where
  "splitDepth c = nat \<lceil>8 * approximateDistance c / kPathSegmentLengthTolerance\<rceil>"

lemma q_split_contract:
  "q_approximateDistance (fst (q_split c)) \<le> 7 / 8 * q_approximateDistance c"
  "q_approximateDistance (snd (q_split c)) \<le> 7 / 8 * q_approximateDistance c"
proof -
  have t: "distanceLine (q_start c) (q_end c)
            \<le> distanceLine (q_start c) (q_control c) + distanceLine (q_control c) (q_end c)"
    by (rule distanceLine_triangle)
  have a: "0 \<le> distanceLine (q_start c) (q_control c)" and b: "0 \<le> distanceLine (q_control c) (q_end c)"
    by (rule distanceLine_nonneg)+
  show "q_approximateDistance (fst (q_split c)) \<le> 7 / 8 * q_approximateDistance c"
    unfolding q_split_left_approx using t a b by (simp add: q_approximateDistance_def)
  show "q_approximateDistance (snd (q_split c)) \<le> 7 / 8 * q_approximateDistance c"
    unfolding q_split_right_approx using t a b by (simp add: q_approximateDistance_def)
qed

lemma c_split_contract:
  "c_approximateDistance (fst (c_split c)) \<le> 7 / 8 * c_approximateDistance c"
  "c_approximateDistance (snd (c_split c)) \<le> 7 / 8 * c_approximateDistance c"
proof -
  let ?a = "toC (c_control1 c) - toC (c_start c)"
  let ?b = "toC (c_control2 c) - toC (c_control1 c)"
  let ?d = "toC (c_end c) - toC (c_control2 c)"
  define A where "A = distanceLine (c_start c) (c_control1 c)"
  define B where "B = distanceLine (c_control1 c) (c_control2 c)"
  define D where "D = distanceLine (c_control2 c) (c_end c)"
  define M where "M = cmod (?d + 2 * ?b + ?a)"
  have t1: "distanceLine (c_start c) (c_control2 c) \<le> A + B"
    unfolding A_def B_def by (rule distanceLine_triangle)
  have t2: "distanceLine (c_control1 c) (c_end c) \<le> B + D"
    unfolding B_def D_def by (rule distanceLine_triangle)
  have s1: "cmod (?d + 2 * ?b + ?a) \<le> cmod (?d + 2 * ?b) + cmod ?a"
    by (rule norm_triangle_ineq)
  have s2: "cmod (?d + 2 * ?b) \<le> cmod ?d + cmod (2 * ?b)"
    by (rule norm_triangle_ineq)
  have s3: "cmod (2 * ?b) = 2 * cmod ?b"
    by (simp only: norm_mult) simp
  have t3: "M \<le> D + 2 * B + A"
    unfolding M_def A_def B_def D_def distanceLine_cmod using s1 s2 s3 by linarith
  have n: "0 \<le> A" "0 \<le> B" "0 \<le> D"
    unfolding A_def B_def D_def by (rule distanceLine_nonneg)+
  have whole: "c_approximateDistance c = A + B + D"
    by (simp only: c_approximateDistance_def A_def B_def D_def)
  have left: "c_approximateDistance (fst (c_split c))
                = A / 2 + distanceLine (c_start c) (c_control2 c) / 4 + M / 8"
    by (simp only: c_split_left_approx A_def M_def)
  have right: "c_approximateDistance (snd (c_split c))
                = M / 8 + distanceLine (c_control1 c) (c_end c) / 4 + D / 2"
    by (simp only: c_split_right_approx D_def M_def)
  show "c_approximateDistance (fst (c_split c)) \<le> 7 / 8 * c_approximateDistance c"
    using left whole t1 t3 n by linarith
  show "c_approximateDistance (snd (c_split c)) \<le> 7 / 8 * c_approximateDistance c"
    using right whole t2 t3 n by linarith
qed

lemma splitCurve_contract:
  "approximateDistance (fst (splitCurve c)) \<le> 7 / 8 * approximateDistance c"
  "approximateDistance (snd (splitCurve c)) \<le> 7 / 8 * approximateDistance c"
proof -
  show "approximateDistance (fst (splitCurve c)) \<le> 7 / 8 * approximateDistance c"
  proof (cases c)
    case (Quadratic q) then show ?thesis using q_split_contract(1) [of q] by simp
  next
    case (Cubic k) then show ?thesis using c_split_contract(1) [of k] by simp
  qed
  show "approximateDistance (snd (splitCurve c)) \<le> 7 / 8 * approximateDistance c"
  proof (cases c)
    case (Quadratic q) then show ?thesis using q_split_contract(2) [of q] by simp
  next
    case (Cubic k) then show ?thesis using c_split_contract(2) [of k] by simp
  qed
qed

lemma splitDepth_less:
  assumes big: "kPathSegmentLengthTolerance < approximateDistance c"
    and le: "approximateDistance c' \<le> 7 / 8 * approximateDistance c"
  shows "splitDepth c' < splitDepth c"
proof -
  define x where "x = approximateDistance c / kPathSegmentLengthTolerance"
  define y where "y = approximateDistance c' / kPathSegmentLengthTolerance"
  have tpos: "0 < kPathSegmentLengthTolerance" by (simp add: kPathSegmentLengthTolerance_def)
  have one: "1 < x" using big tpos by (simp add: x_def)
  have yx: "8 * y \<le> 7 * x"
    using le tpos by (simp add: x_def y_def field_simps)
  have c1: "real_of_int \<lceil>8 * y\<rceil> < 8 * y + 1" by linarith
  have c2: "8 * x \<le> real_of_int \<lceil>8 * x\<rceil>" by linarith
  have "real_of_int \<lceil>8 * y\<rceil> < real_of_int \<lceil>8 * x\<rceil>"
    using c1 c2 yx one by linarith
  then have lt: "\<lceil>8 * y\<rceil> < \<lceil>8 * x\<rceil>" by linarith
  have "0 < real_of_int \<lceil>8 * x\<rceil>" using c2 one by linarith
  then have pos: "0 < \<lceil>8 * x\<rceil>" by linarith
  have "splitDepth c' = nat \<lceil>8 * y\<rceil>" "splitDepth c = nat \<lceil>8 * x\<rceil>"
    by (simp_all add: splitDepth_def x_def y_def)
  then show ?thesis using lt pos by linarith
qed

lemma splitDepth_split:
  assumes "kPathSegmentLengthTolerance
             < approximateDistance c - distanceLine (curveStart c) (curveEnd c)"
  shows "splitDepth (fst (splitCurve c)) < splitDepth c"
    and "splitDepth (snd (splitCurve c)) < splitDepth c"
proof -
  have big: "kPathSegmentLengthTolerance < approximateDistance c"
    using assms distanceLine_nonneg [of "curveStart c" "curveEnd c"] by linarith
  show "splitDepth (fst (splitCurve c)) < splitDepth c"
    by (rule splitDepth_less [OF big splitCurve_contract(1)])
  show "splitDepth (snd (splitCurve c)) < splitDepth c"
    by (rule splitDepth_less [OF big splitCurve_contract(2)])
qed

definition splitWeight :: "CurveType \<Rightarrow> nat" where
  "splitWeight c = 3 ^ splitDepth c"

lemma splitWeight_pos: "0 < splitWeight c"
  by (simp add: splitWeight_def)

lemma splitWeight_split:
  assumes "kPathSegmentLengthTolerance
             < approximateDistance c - distanceLine (curveStart c) (curveEnd c)"
  shows "splitWeight (fst (splitCurve c)) + splitWeight (snd (splitCurve c)) < splitWeight c"
proof -
  have l: "splitDepth (fst (splitCurve c)) < splitDepth c"
    and r: "splitDepth (snd (splitCurve c)) < splitDepth c"
    using splitDepth_split [OF assms] by simp_all
  obtain n where n: "splitDepth c = Suc n" using l by (cases "splitDepth c") auto
  have pl: "(3::nat) ^ splitDepth (fst (splitCurve c)) \<le> 3 ^ n"
    using l n by (intro power_increasing) auto
  have pr: "(3::nat) ^ splitDepth (snd (splitCurve c)) \<le> 3 ^ n"
    using r n by (intro power_increasing) auto
  have p0: "(0::nat) < 3 ^ n" by simp
  have "splitWeight c = 3 * 3 ^ n" by (simp add: splitWeight_def n)
  then show ?thesis unfolding splitWeight_def using pl pr p0 by linarith
qed

subsection \<open>The adaptive length loop\<close>

text \<open>
  \<open>curveStack\<close> is never empty when the body of the \<open>do ... while\<close> loop runs: it holds
  one curve at entry and the loop is left as soon as a pop empties it. The model keeps the
  vector as its last element \<open>stackLast\<close> and the elements \<open>below\<close> it (nearest first).
  The result is the returned length paired with the traversal state as the call leaves it.
\<close>

function curveLoop ::
  "PathTraversalState \<Rightarrow> CurveType \<Rightarrow> CurveType \<Rightarrow> CurveType list \<Rightarrow> real
     \<Rightarrow> real \<times> PathTraversalState"
where
  "curveLoop traversalState curve stackLast below totalLength =
     (let len = approximateDistance curve in
      if len - distanceLine (curveStart curve) (curveEnd curve) > kPathSegmentLengthTolerance
      then
        (case splitCurve curve of
           (left, right) \<Rightarrow> curveLoop traversalState left right (stackLast # below) totalLength)
      else
        (let totalLength' = totalLength + len in
         if m_action traversalState = TraversalPointAtLength
              \<or> m_action traversalState = TraversalNormalAngleAtLength
         then
           (let traversalState' =
                  traversalState\<lparr>m_previous := curveStart curve, m_current := curveEnd curve\<rparr>
            in if m_totalLength traversalState' + totalLength' > m_desiredLength traversalState'
               then (totalLength', traversalState')
               else (case below of
                       [] \<Rightarrow> (totalLength', traversalState')
                     | nextLast # below' \<Rightarrow>
                         curveLoop traversalState' stackLast nextLast below' totalLength'))
         else
           (case below of
              [] \<Rightarrow> (totalLength', traversalState)
            | nextLast # below' \<Rightarrow> curveLoop traversalState stackLast nextLast below' totalLength')))"
  by pat_completeness auto
termination
  apply (relation "measure (\<lambda>(ts, curve, stackLast, below, total).
                   splitWeight curve + splitWeight stackLast + sum_list (map splitWeight below))")
     apply simp
  subgoal for traversalState curve
    using splitWeight_split [of curve] by (cases "splitCurve curve") simp
  subgoal for traversalState curve
    using splitWeight_pos [of curve] by simp
  subgoal for traversalState curve
    using splitWeight_pos [of curve] by simp
  done

declare curveLoop.simps [simp del]

definition curveLength :: "PathTraversalState \<Rightarrow> CurveType \<Rightarrow> real \<times> PathTraversalState" where
  "curveLength traversalState curve = curveLoop traversalState curve curve [] 0"

subsection \<open>Segment operations\<close>

text \<open>Each operation returns the float it returns in the source, paired with the
  state after the call. The constructor leaves the point members default-constructed;
  \<open>FloatPoint()\<close> is the origin.\<close>

definition newPathTraversalState :: "PathTraversalAction \<Rightarrow> PathTraversalState" where
  "newPathTraversalState action =
     \<lparr>m_action = action, m_success = False, m_current = (0, 0), m_start = (0, 0),
      m_control1 = (0, 0), m_control2 = (0, 0), m_totalLength = 0, m_segmentIndex = 0,
      m_desiredLength = 0, m_previous = (0, 0), m_normalAngle = 0\<rparr>"

definition closeSubpath :: "PathTraversalState \<Rightarrow> real \<times> PathTraversalState" where
  "closeSubpath s =
     (let distance = distanceLine (m_current s) (m_start s)
      in (distance,
          s\<lparr>m_control2 := m_current s, m_control1 := m_current s, m_start := m_current s\<rparr>))"

definition moveTo :: "FloatPoint \<Rightarrow> PathTraversalState \<Rightarrow> real \<times> PathTraversalState" where
  "moveTo point s =
     (0, s\<lparr>m_control2 := point, m_control1 := point, m_start := point, m_current := point\<rparr>)"

definition lineTo :: "FloatPoint \<Rightarrow> PathTraversalState \<Rightarrow> real \<times> PathTraversalState" where
  "lineTo point s =
     (let distance = distanceLine (m_current s) point
      in (distance, s\<lparr>m_control2 := point, m_control1 := point, m_current := point\<rparr>))"

definition quadraticBezierTo ::
  "FloatPoint \<Rightarrow> FloatPoint \<Rightarrow> PathTraversalState \<Rightarrow> real \<times> PathTraversalState"
where
  "quadraticBezierTo newControl newEnd s =
     (case curveLength s (Quadratic (QuadraticBezier (m_current s) newControl newEnd)) of
        (distance, s1) \<Rightarrow>
          (let s2 = s1\<lparr>m_control1 := newControl, m_control2 := newEnd\<rparr>
           in (distance,
               if m_action s2 \<noteq> TraversalPointAtLength
                    \<and> m_action s2 \<noteq> TraversalNormalAngleAtLength
               then s2\<lparr>m_current := newEnd\<rparr> else s2)))"

definition cubicBezierTo ::
  "FloatPoint \<Rightarrow> FloatPoint \<Rightarrow> FloatPoint \<Rightarrow> PathTraversalState
     \<Rightarrow> real \<times> PathTraversalState"
where
  "cubicBezierTo newControl1 newControl2 newEnd s =
     (case curveLength s (Cubic (CubicBezier (m_current s) newControl1 newControl2 newEnd)) of
        (distance, s1) \<Rightarrow>
          (let s2 = s1\<lparr>m_control1 := newEnd, m_control2 := newControl2\<rparr>
           in (distance,
               if m_action s2 \<noteq> TraversalPointAtLength
                    \<and> m_action s2 \<noteq> TraversalNormalAngleAtLength
               then s2\<lparr>m_current := newEnd\<rparr> else s2)))"

subsection \<open>The path iterator\<close>







subsection \<open>The naive recursive length\<close>



section \<open>The binary32 reading\<close>

text \<open>
  The program again, with the arithmetic of the C++ type \<open>float\<close> as IEEE 754 binary32,
  rounding to nearest with ties to even. Each operation is rounded on its own: there is no
  fused multiply-add and no wider intermediate precision. A finite value \<open>Finite m e\<close> stands for
  \<open>m \<times> 2\<^sup>e\<close>; every operation returns it with a 24-bit significand, or with exponent
  \<open>-149\<close> when it is subnormal. The sign of zero is not tracked: no operation of the
  program tells \<open>-0\<close> from \<open>+0\<close>.
\<close>

datatype binary32 = Finite int int | PlusInfinity | MinusInfinity | NaN

function bitLength :: "int \<Rightarrow> nat" where
  "bitLength n = (if n \<le> 0 then 0 else Suc (bitLength (n div 2)))"
  by pat_completeness auto
termination
  by (relation "measure nat") auto

declare bitLength.simps [simp del]

text \<open>\<open>roundToBinary32 m e\<close> is the binary32 value nearest to \<open>m \<times> 2\<^sup>e\<close>, ties going
  to the even significand: \<open>q\<close> is the exponent of the last place that fits,
  \<open>roundSignificand\<close> the magnitude in units of that place, and \<open>packBinary32\<close> renormalises
  a carry out of the 24 bits and turns an exponent above 104 into an infinity.\<close>

definition roundSignificand :: "int \<Rightarrow> int \<Rightarrow> int \<Rightarrow> int" where
  "roundSignificand a e q =
     (if q \<le> e then a * 2 ^ nat (e - q)
      else (let d = 2 ^ nat (q - e); lo = a div d; rest = a mod d
            in if d < 2 * rest \<or> (2 * rest = d \<and> odd lo) then lo + 1 else lo))"

definition packBinary32 :: "bool \<Rightarrow> int \<Rightarrow> int \<Rightarrow> binary32" where
  "packBinary32 negative r q =
     (let r' = (if r = 2 ^ 24 then 2 ^ 23 else r);
          q' = (if r = 2 ^ 24 then q + 1 else q)
      in if r' = 0 then Finite 0 0
         else if 104 < q' then (if negative then MinusInfinity else PlusInfinity)
         else Finite (if negative then - r' else r') q')"

definition roundToBinary32 :: "int \<Rightarrow> int \<Rightarrow> binary32" where
  "roundToBinary32 m e =
     (let a = \<bar>m\<bar>;
          q = max (e + int (bitLength a) - 24) (- 149)
      in packBinary32 (m < 0) (roundSignificand a e q) q)"

fun fneg :: "binary32 \<Rightarrow> binary32" where
  "fneg (Finite m e) = Finite (- m) e"
| "fneg PlusInfinity = MinusInfinity"
| "fneg MinusInfinity = PlusInfinity"
| "fneg NaN = NaN"

fun fadd :: "binary32 \<Rightarrow> binary32 \<Rightarrow> binary32" where
  "fadd (Finite m1 e1) (Finite m2 e2) =
     (let e = min e1 e2
      in roundToBinary32 (m1 * 2 ^ nat (e1 - e) + m2 * 2 ^ nat (e2 - e)) e)"
| "fadd NaN y = NaN"
| "fadd x NaN = NaN"
| "fadd PlusInfinity MinusInfinity = NaN"
| "fadd MinusInfinity PlusInfinity = NaN"
| "fadd PlusInfinity y = PlusInfinity"
| "fadd x PlusInfinity = PlusInfinity"
| "fadd MinusInfinity y = MinusInfinity"
| "fadd x MinusInfinity = MinusInfinity"

definition fsub :: "binary32 \<Rightarrow> binary32 \<Rightarrow> binary32" where
  "fsub x y = fadd x (fneg y)"

fun fsign :: "binary32 \<Rightarrow> int" where
  "fsign (Finite m e) = sgn m"
| "fsign PlusInfinity = 1"
| "fsign MinusInfinity = - 1"
| "fsign NaN = 0"

fun fmul :: "binary32 \<Rightarrow> binary32 \<Rightarrow> binary32" where
  "fmul (Finite m1 e1) (Finite m2 e2) = roundToBinary32 (m1 * m2) (e1 + e2)"
| "fmul NaN y = NaN"
| "fmul x NaN = NaN"
| "fmul x y =
     (if fsign x * fsign y = 0 then NaN
      else if 0 < fsign x * fsign y then PlusInfinity else MinusInfinity)"

text \<open>The quotient is taken with at least 26 bits and a sticky bit, then rounded. A zero
  divisor is taken as \<open>+0\<close>; the program only divides by \<open>2.0f\<close>.\<close>

fun fdiv :: "binary32 \<Rightarrow> binary32 \<Rightarrow> binary32" where
  "fdiv (Finite m1 e1) (Finite m2 e2) =
     (if m2 = 0 then (if m1 = 0 then NaN else if 0 < m1 then PlusInfinity else MinusInfinity)
      else
        (let k = 26 + bitLength \<bar>m2\<bar>;
             n = \<bar>m1\<bar> * 2 ^ k;
             quo = n div \<bar>m2\<bar>;
             sticky = (if n mod \<bar>m2\<bar> = 0 then 0 else 1)
         in roundToBinary32 (sgn m1 * sgn m2 * (2 * quo + sticky)) (e1 - e2 - int k - 1)))"
| "fdiv NaN y = NaN"
| "fdiv x NaN = NaN"
| "fdiv x (Finite m e) =
     (if fsign x * (if m < 0 then - 1 else 1) < 0 then MinusInfinity else PlusInfinity)"
| "fdiv (Finite m e) y = Finite 0 0"
| "fdiv x y = NaN"

primrec sqrtBits :: "nat \<Rightarrow> int \<Rightarrow> int \<Rightarrow> int" where
  "sqrtBits 0 n r = r"
| "sqrtBits (Suc k) n r =
     (let r' = r + 2 ^ k in sqrtBits k n (if r' * r' \<le> n then r' else r))"

definition integerSqrt :: "int \<Rightarrow> int" where
  "integerSqrt n = sqrtBits (bitLength n) n 0"

text \<open>The root of the significand, scaled to an even exponent and at least 52 bits, is
  taken with a sticky bit and rounded.\<close>

fun fsqrt :: "binary32 \<Rightarrow> binary32" where
  "fsqrt (Finite m e) =
     (if m < 0 then NaN
      else
        (let s = 52 + e mod 2;
             n = m * 2 ^ nat s;
             r = integerSqrt n;
             sticky = (if r * r = n then 0 else 1)
         in roundToBinary32 (2 * r + sticky) ((e - s) div 2 - 1)))"
| "fsqrt PlusInfinity = PlusInfinity"
| "fsqrt MinusInfinity = NaN"
| "fsqrt NaN = NaN"

text \<open>The comparisons \<open><\<close> and \<open>\<le>\<close> of C++; both are false when an operand is NaN.\<close>

fun fless :: "binary32 \<Rightarrow> binary32 \<Rightarrow> bool" where
  "fless (Finite m1 e1) (Finite m2 e2) =
     (let e = min e1 e2 in m1 * 2 ^ nat (e1 - e) < m2 * 2 ^ nat (e2 - e))"
| "fless NaN y = False"
| "fless x NaN = False"
| "fless x MinusInfinity = False"
| "fless PlusInfinity y = False"
| "fless x PlusInfinity = True"
| "fless MinusInfinity y = True"

fun fle :: "binary32 \<Rightarrow> binary32 \<Rightarrow> bool" where
  "fle (Finite m1 e1) (Finite m2 e2) =
     (let e = min e1 e2 in m1 * 2 ^ nat (e1 - e) \<le> m2 * 2 ^ nat (e2 - e))"
| "fle NaN y = False"
| "fle x NaN = False"
| "fle MinusInfinity y = True"
| "fle x PlusInfinity = True"
| "fle x MinusInfinity = False"
| "fle PlusInfinity y = False"

declare fneg.simps [simp del] fadd.simps [simp del] fmul.simps [simp del] fdiv.simps [simp del]
  fsqrt.simps [simp del] fless.simps [simp del] fle.simps [simp del] fsign.simps [simp del]

subsection \<open>The program over binary32\<close>

type_synonym FloatPoint32 = "binary32 \<times> binary32"

text \<open>\<open>0.00001f\<close> is \<open>10995116 \<times> 2\<^sup>-\<^sup>4\<^sup>0\<close>, the binary32 value nearest to \<open>10\<^sup>-\<^sup>5\<close>.\<close>

definition kPathSegmentLengthTolerance32 :: binary32 where
  "kPathSegmentLengthTolerance32 = Finite 10995116 (- 40)"

definition midPoint32 :: "FloatPoint32 \<Rightarrow> FloatPoint32 \<Rightarrow> FloatPoint32" where
  "midPoint32 first second =
     (fdiv (fadd (fst first) (fst second)) (Finite 2 0),
      fdiv (fadd (snd first) (snd second)) (Finite 2 0))"

definition distanceLine32 :: "FloatPoint32 \<Rightarrow> FloatPoint32 \<Rightarrow> binary32" where
  "distanceLine32 startp endp =
     fsqrt (fadd (fmul (fsub (fst endp) (fst startp)) (fsub (fst endp) (fst startp)))
                 (fmul (fsub (snd endp) (snd startp)) (fsub (snd endp) (snd startp))))"

datatype QuadraticBezier32 =
  QuadraticBezier32 (q_start32: FloatPoint32) (q_control32: FloatPoint32) (q_end32: FloatPoint32)

definition q_approximateDistance32 :: "QuadraticBezier32 \<Rightarrow> binary32" where
  "q_approximateDistance32 c =
     fadd (distanceLine32 (q_start32 c) (q_control32 c))
          (distanceLine32 (q_control32 c) (q_end32 c))"

definition q_split32 :: "QuadraticBezier32 \<Rightarrow> QuadraticBezier32 \<times> QuadraticBezier32" where
  "q_split32 c =
     (let left_control = midPoint32 (q_start32 c) (q_control32 c);
          right_control = midPoint32 (q_control32 c) (q_end32 c);
          leftControlToRightControl = midPoint32 left_control right_control
      in (QuadraticBezier32 (q_start32 c) left_control leftControlToRightControl,
          QuadraticBezier32 leftControlToRightControl right_control (q_end32 c)))"

datatype CubicBezier32 =
  CubicBezier32 (c_start32: FloatPoint32) (c_control1_32: FloatPoint32)
    (c_control2_32: FloatPoint32) (c_end32: FloatPoint32)

definition c_approximateDistance32 :: "CubicBezier32 \<Rightarrow> binary32" where
  "c_approximateDistance32 c =
     fadd (fadd (distanceLine32 (c_start32 c) (c_control1_32 c))
                (distanceLine32 (c_control1_32 c) (c_control2_32 c)))
          (distanceLine32 (c_control2_32 c) (c_end32 c))"

definition c_split32 :: "CubicBezier32 \<Rightarrow> CubicBezier32 \<times> CubicBezier32" where
  "c_split32 c =
     (let startToControl1 = midPoint32 (c_control1_32 c) (c_control2_32 c);
          left_control1 = midPoint32 (c_start32 c) (c_control1_32 c);
          left_control2 = midPoint32 left_control1 startToControl1;
          right_control2 = midPoint32 (c_control2_32 c) (c_end32 c);
          right_control1 = midPoint32 right_control2 startToControl1;
          leftControl2ToRightControl1 = midPoint32 left_control2 right_control1
      in (CubicBezier32 (c_start32 c) left_control1 left_control2 leftControl2ToRightControl1,
          CubicBezier32 leftControl2ToRightControl1 right_control1 right_control2 (c_end32 c)))"

datatype CurveType32 = Quadratic32 QuadraticBezier32 | Cubic32 CubicBezier32

fun approximateDistance32 :: "CurveType32 \<Rightarrow> binary32" where
  "approximateDistance32 (Quadratic32 c) = q_approximateDistance32 c"
| "approximateDistance32 (Cubic32 c) = c_approximateDistance32 c"

fun splitCurve32 :: "CurveType32 \<Rightarrow> CurveType32 \<times> CurveType32" where
  "splitCurve32 (Quadratic32 c) = (Quadratic32 (fst (q_split32 c)), Quadratic32 (snd (q_split32 c)))"
| "splitCurve32 (Cubic32 c) = (Cubic32 (fst (c_split32 c)), Cubic32 (snd (c_split32 c)))"

fun curveStart32 :: "CurveType32 \<Rightarrow> FloatPoint32" where
  "curveStart32 (Quadratic32 c) = q_start32 c"
| "curveStart32 (Cubic32 c) = c_start32 c"

fun curveEnd32 :: "CurveType32 \<Rightarrow> FloatPoint32" where
  "curveEnd32 (Quadratic32 c) = q_end32 c"
| "curveEnd32 (Cubic32 c) = c_end32 c"

record PathTraversalState32 =
  m_action32 :: PathTraversalAction
  m_success32 :: bool
  m_current32 :: FloatPoint32
  m_start32 :: FloatPoint32
  m_control1_32 :: FloatPoint32
  m_control2_32 :: FloatPoint32
  m_totalLength32 :: binary32
  m_segmentIndex32 :: int
  m_desiredLength32 :: binary32
  m_previous32 :: FloatPoint32
  m_normalAngle32 :: binary32

text \<open>
  With rounding the subdivision need not reach flat pieces, so the loop is a partial
  function: \<open>None\<close> stands for a call that does not return.
\<close>

partial_function (option) curveLoop32 ::
  "PathTraversalState32 \<Rightarrow> CurveType32 \<Rightarrow> CurveType32 \<Rightarrow> CurveType32 list \<Rightarrow> binary32
     \<Rightarrow> (binary32 \<times> PathTraversalState32) option"
where
  "curveLoop32 traversalState curve stackLast below totalLength =
     (let len = approximateDistance32 curve in
      if fless kPathSegmentLengthTolerance32
           (fsub len (distanceLine32 (curveStart32 curve) (curveEnd32 curve)))
      then
        (case splitCurve32 curve of
           (left, right) \<Rightarrow> curveLoop32 traversalState left right (stackLast # below) totalLength)
      else
        (let totalLength' = fadd totalLength len in
         if m_action32 traversalState = TraversalPointAtLength
              \<or> m_action32 traversalState = TraversalNormalAngleAtLength
         then
           (let traversalState' =
                  traversalState\<lparr>m_previous32 := curveStart32 curve,
                                   m_current32 := curveEnd32 curve\<rparr>
            in if fless (m_desiredLength32 traversalState')
                    (fadd (m_totalLength32 traversalState') totalLength')
               then Some (totalLength', traversalState')
               else (case below of
                       [] \<Rightarrow> Some (totalLength', traversalState')
                     | nextLast # below' \<Rightarrow>
                         curveLoop32 traversalState' stackLast nextLast below' totalLength'))
         else
           (case below of
              [] \<Rightarrow> Some (totalLength', traversalState)
            | nextLast # below' \<Rightarrow>
                curveLoop32 traversalState stackLast nextLast below' totalLength')))"

definition curveLength32 ::
  "PathTraversalState32 \<Rightarrow> CurveType32 \<Rightarrow> (binary32 \<times> PathTraversalState32) option" where
  "curveLength32 traversalState curve = curveLoop32 traversalState curve curve [] (Finite 0 0)"

definition newPathTraversalState32 :: "PathTraversalAction \<Rightarrow> PathTraversalState32" where
  "newPathTraversalState32 action =
     \<lparr>m_action32 = action, m_success32 = False, m_current32 = (Finite 0 0, Finite 0 0),
      m_start32 = (Finite 0 0, Finite 0 0), m_control1_32 = (Finite 0 0, Finite 0 0),
      m_control2_32 = (Finite 0 0, Finite 0 0), m_totalLength32 = Finite 0 0,
      m_segmentIndex32 = 0, m_desiredLength32 = Finite 0 0,
      m_previous32 = (Finite 0 0, Finite 0 0), m_normalAngle32 = Finite 0 0\<rparr>"






text \<open>The recursive definition of the claim, and the flat pieces the subdivision ends
  with, in order from the start of the curve to its end.\<close>

partial_function (option) recLen32 :: "CurveType32 \<Rightarrow> binary32 option" where
  "recLen32 c =
     (if fle (fsub (approximateDistance32 c) (distanceLine32 (curveStart32 c) (curveEnd32 c)))
           kPathSegmentLengthTolerance32
      then Some (approximateDistance32 c)
      else (case splitCurve32 c of
              (left, right) \<Rightarrow>
                Option.bind (recLen32 left)
                  (\<lambda>l. Option.bind (recLen32 right) (\<lambda>r. Some (fadd l r)))))"

partial_function (option) flatPieces32 :: "CurveType32 \<Rightarrow> CurveType32 list option" where
  "flatPieces32 c =
     (if fless kPathSegmentLengthTolerance32
           (fsub (approximateDistance32 c) (distanceLine32 (curveStart32 c) (curveEnd32 c)))
      then (case splitCurve32 c of
              (left, right) \<Rightarrow>
                Option.bind (flatPieces32 left)
                  (\<lambda>l. Option.bind (flatPieces32 right) (\<lambda>r. Some (l @ r))))
      else Some [c])"

declare approximateDistance32.simps [simp del] splitCurve32.simps [simp del]


section \<open>Reasoning about the loop\<close>

subsection \<open>One iteration\<close>

lemma curveLoop_split:
  assumes "kPathSegmentLengthTolerance
             < approximateDistance c - distanceLine (curveStart c) (curveEnd c)"
  shows "curveLoop st c l b t = curveLoop st (fst (splitCurve c)) (snd (splitCurve c)) (l # b) t"
  using assms by (subst curveLoop.simps) (simp add: Let_def split_beta)

lemma curveLoop_flat_plain:
  assumes "\<not> kPathSegmentLengthTolerance
             < approximateDistance c - distanceLine (curveStart c) (curveEnd c)"
    and "m_action st \<noteq> TraversalPointAtLength" "m_action st \<noteq> TraversalNormalAngleAtLength"
  shows "curveLoop st c l b t =
           (case b of [] \<Rightarrow> (t + approximateDistance c, st)
            | n # b' \<Rightarrow> curveLoop st l n b' (t + approximateDistance c))"
  using assms by (subst curveLoop.simps) (simp add: Let_def)

lemma curveLoop_flat_query:
  assumes "\<not> kPathSegmentLengthTolerance
             < approximateDistance c - distanceLine (curveStart c) (curveEnd c)"
    and "m_action st = TraversalPointAtLength \<or> m_action st = TraversalNormalAngleAtLength"
  shows "curveLoop st c l b t =
           (if m_desiredLength st < m_totalLength st + (t + approximateDistance c)
            then (t + approximateDistance c, st\<lparr>m_previous := curveStart c, m_current := curveEnd c\<rparr>)
            else (case b of
                    [] \<Rightarrow> (t + approximateDistance c,
                           st\<lparr>m_previous := curveStart c, m_current := curveEnd c\<rparr>)
                  | n # b' \<Rightarrow>
                      curveLoop (st\<lparr>m_previous := curveStart c, m_current := curveEnd c\<rparr>)
                        l n b' (t + approximateDistance c)))"
  using assms by (subst curveLoop.simps) (simp add: Let_def)


subsection \<open>Induction over the iterations\<close>

lemma curveLoop_cases_induct
  [case_names split plain_last plain_pop query_stop query_last query_pop]:
  assumes split: "\<And>st c l b t.
      kPathSegmentLengthTolerance < approximateDistance c - distanceLine (curveStart c) (curveEnd c)
      \<Longrightarrow> P st (fst (splitCurve c)) (snd (splitCurve c)) (l # b) t
      \<Longrightarrow> curveLoop st c l b t = curveLoop st (fst (splitCurve c)) (snd (splitCurve c)) (l # b) t
      \<Longrightarrow> P st c l b t"
    and plain_last: "\<And>st c l t.
      \<not> kPathSegmentLengthTolerance < approximateDistance c - distanceLine (curveStart c) (curveEnd c)
      \<Longrightarrow> m_action st \<noteq> TraversalPointAtLength
      \<Longrightarrow> m_action st \<noteq> TraversalNormalAngleAtLength
      \<Longrightarrow> curveLoop st c l [] t = (t + approximateDistance c, st)
      \<Longrightarrow> P st c l [] t"
    and plain_pop: "\<And>st c l n b t.
      \<not> kPathSegmentLengthTolerance < approximateDistance c - distanceLine (curveStart c) (curveEnd c)
      \<Longrightarrow> m_action st \<noteq> TraversalPointAtLength
      \<Longrightarrow> m_action st \<noteq> TraversalNormalAngleAtLength
      \<Longrightarrow> P st l n b (t + approximateDistance c)
      \<Longrightarrow> curveLoop st c l (n # b) t = curveLoop st l n b (t + approximateDistance c)
      \<Longrightarrow> P st c l (n # b) t"
    and query_stop: "\<And>st c l b t.
      \<not> kPathSegmentLengthTolerance < approximateDistance c - distanceLine (curveStart c) (curveEnd c)
      \<Longrightarrow> m_action st = TraversalPointAtLength \<or> m_action st = TraversalNormalAngleAtLength
      \<Longrightarrow> m_desiredLength st < m_totalLength st + (t + approximateDistance c)
      \<Longrightarrow> curveLoop st c l b t
            = (t + approximateDistance c,
               st\<lparr>m_previous := curveStart c, m_current := curveEnd c\<rparr>)
      \<Longrightarrow> P st c l b t"
    and query_last: "\<And>st c l t.
      \<not> kPathSegmentLengthTolerance < approximateDistance c - distanceLine (curveStart c) (curveEnd c)
      \<Longrightarrow> m_action st = TraversalPointAtLength \<or> m_action st = TraversalNormalAngleAtLength
      \<Longrightarrow> \<not> m_desiredLength st < m_totalLength st + (t + approximateDistance c)
      \<Longrightarrow> curveLoop st c l [] t
            = (t + approximateDistance c,
               st\<lparr>m_previous := curveStart c, m_current := curveEnd c\<rparr>)
      \<Longrightarrow> P st c l [] t"
    and query_pop: "\<And>st c l n b t.
      \<not> kPathSegmentLengthTolerance < approximateDistance c - distanceLine (curveStart c) (curveEnd c)
      \<Longrightarrow> m_action st = TraversalPointAtLength \<or> m_action st = TraversalNormalAngleAtLength
      \<Longrightarrow> \<not> m_desiredLength st < m_totalLength st + (t + approximateDistance c)
      \<Longrightarrow> P (st\<lparr>m_previous := curveStart c, m_current := curveEnd c\<rparr>) l n b
            (t + approximateDistance c)
      \<Longrightarrow> curveLoop st c l (n # b) t
            = curveLoop (st\<lparr>m_previous := curveStart c, m_current := curveEnd c\<rparr>) l n b
                (t + approximateDistance c)
      \<Longrightarrow> P st c l (n # b) t"
  shows "P st c l b t"
proof (induction st c l b t rule: curveLoop.induct)
  case (1 st c l b t)
  let ?slack = "approximateDistance c - distanceLine (curveStart c) (curveEnd c)"
  let ?query = "m_action st = TraversalPointAtLength \<or> m_action st = TraversalNormalAngleAtLength"
  let ?st' = "st\<lparr>m_previous := curveStart c, m_current := curveEnd c\<rparr>"
  consider (a) "kPathSegmentLengthTolerance < ?slack"
    | (b) "\<not> kPathSegmentLengthTolerance < ?slack" "\<not> ?query"
    | (c) "\<not> kPathSegmentLengthTolerance < ?slack" "?query"
    by blast
  then show ?case
  proof cases
    case a
    show ?thesis
      by (rule split [OF a "1.IH"(1) [OF refl a prod.collapse] curveLoop_split [OF a]])
  next
    case b
    have na: "m_action st \<noteq> TraversalPointAtLength" "m_action st \<noteq> TraversalNormalAngleAtLength"
      using b(2) by simp_all
    show ?thesis
    proof (cases b)
      case Nil
      have "curveLoop st c l [] t = (t + approximateDistance c, st)"
        using curveLoop_flat_plain [OF b(1) na, of l "[]" t] by simp
      from plain_last [OF b(1) na this] show ?thesis using Nil by simp
    next
      case (Cons n b')
      have "curveLoop st c l (n # b') t = curveLoop st l n b' (t + approximateDistance c)"
        using curveLoop_flat_plain [OF b(1) na, of l "n # b'" t] by simp
      from plain_pop [OF b(1) na "1.IH"(3) [OF refl b(1) refl b(2) Cons] this]
      show ?thesis using Cons by simp
    qed
  next
    case c
    show ?thesis
    proof (cases "m_desiredLength st < m_totalLength st + (t + approximateDistance c)")
      case True
      have "curveLoop st c l b t = (t + approximateDistance c, ?st')"
        using curveLoop_flat_query [OF c, of l b t] True by simp
      from query_stop [OF c True this] show ?thesis .
    next
      case False
      show ?thesis
      proof (cases b)
        case Nil
        have "curveLoop st c l [] t = (t + approximateDistance c, ?st')"
          using curveLoop_flat_query [OF c, of l "[]" t] False by simp
        from query_last [OF c False this] show ?thesis using Nil by simp
      next
        case (Cons n b')
        have f': "\<not> m_desiredLength ?st' < m_totalLength ?st' + (t + approximateDistance c)"
          using False by simp
        have "curveLoop st c l (n # b') t = curveLoop ?st' l n b' (t + approximateDistance c)"
          using curveLoop_flat_query [OF c, of l "n # b'" t] False by simp
        from query_pop [OF c False "1.IH"(2) [OF refl c(1) refl c(2) refl f' Cons] this]
        show ?thesis using Cons by simp
      qed
    qed
  qed
qed

lemma curveLoop_bookkeeping:
  "m_totalLength (snd (curveLoop st c l b t)) = m_totalLength st"
  "m_desiredLength (snd (curveLoop st c l b t)) = m_desiredLength st"
  "m_action (snd (curveLoop st c l b t)) = m_action st"
  "m_success (snd (curveLoop st c l b t)) = m_success st"
  "m_segmentIndex (snd (curveLoop st c l b t)) = m_segmentIndex st"
  "m_normalAngle (snd (curveLoop st c l b t)) = m_normalAngle st"
  "m_start (snd (curveLoop st c l b t)) = m_start st"
  "m_control1 (snd (curveLoop st c l b t)) = m_control1 st"
  "m_control2 (snd (curveLoop st c l b t)) = m_control2 st"
  by (induction st c l b t rule: curveLoop_cases_induct; simp)+







subsection \<open>A query against the full length\<close>















section \<open>Reasoning about the binary32 loop\<close>

subsection \<open>The loop adds the flat pieces from left to right\<close>

lemma curveLoop32_split:
  assumes "fless kPathSegmentLengthTolerance32
             (fsub (approximateDistance32 c) (distanceLine32 (curveStart32 c) (curveEnd32 c)))"
  shows "curveLoop32 st c l b t
           = curveLoop32 st (fst (splitCurve32 c)) (snd (splitCurve32 c)) (l # b) t"
  using assms by (subst curveLoop32.simps) (simp add: Let_def split_beta)

lemma curveLoop32_flat_plain:
  assumes "\<not> fless kPathSegmentLengthTolerance32
             (fsub (approximateDistance32 c) (distanceLine32 (curveStart32 c) (curveEnd32 c)))"
    and "m_action32 st \<noteq> TraversalPointAtLength"
    and "m_action32 st \<noteq> TraversalNormalAngleAtLength"
  shows "curveLoop32 st c l b t =
           (case b of
              [] \<Rightarrow> Some (fadd t (approximateDistance32 c), st)
            | n # r \<Rightarrow> curveLoop32 st l n r (fadd t (approximateDistance32 c)))"
  using assms by (subst curveLoop32.simps) (simp add: Let_def)

lemma curveLoop32_pieces:
  assumes "flatPieces32 c = Some ps"
    and "m_action32 st \<noteq> TraversalPointAtLength"
    and "m_action32 st \<noteq> TraversalNormalAngleAtLength"
  shows "curveLoop32 st c l b t =
           (case b of
              [] \<Rightarrow> Some (foldl fadd t (map approximateDistance32 ps), st)
            | n # r \<Rightarrow> curveLoop32 st l n r (foldl fadd t (map approximateDistance32 ps)))"
proof -
  let ?P = "\<lambda>c ps. \<forall>l b t. curveLoop32 st c l b t =
           (case b of
              [] \<Rightarrow> Some (foldl fadd t (map approximateDistance32 ps), st)
            | n # r \<Rightarrow> curveLoop32 st l n r (foldl fadd t (map approximateDistance32 ps)))"
  have "?P c ps"
  proof (rule flatPieces32.raw_induct [where P = ?P, OF _ assms(1)])
    fix f c ps
    assume IH: "\<And>x y. f x = Some y \<Longrightarrow> ?P x y"
      and step: "(if fless kPathSegmentLengthTolerance32
                      (fsub (approximateDistance32 c)
                         (distanceLine32 (curveStart32 c) (curveEnd32 c)))
                  then case splitCurve32 c of
                         (left, right) \<Rightarrow>
                           Option.bind (f left)
                             (\<lambda>l. Option.bind (f right) (\<lambda>r. Some (l @ r)))
                  else Some [c]) = Some ps"
    show "?P c ps"
    proof (cases "fless kPathSegmentLengthTolerance32
                    (fsub (approximateDistance32 c)
                       (distanceLine32 (curveStart32 c) (curveEnd32 c)))")
      case True
      from step True obtain pl pr
        where l: "f (fst (splitCurve32 c)) = Some pl"
          and r: "f (snd (splitCurve32 c)) = Some pr"
          and ps: "ps = pl @ pr"
        by (auto simp add: split_beta Option.bind_eq_Some_conv)
      show ?thesis
      proof (intro allI)
        fix l b t
        have "curveLoop32 st c l b t
                = curveLoop32 st (fst (splitCurve32 c)) (snd (splitCurve32 c)) (l # b) t"
          by (rule curveLoop32_split [OF True])
        also have "\<dots> = curveLoop32 st (snd (splitCurve32 c)) l b
                            (foldl fadd t (map approximateDistance32 pl))"
          using IH [OF l] by simp
        also have "\<dots> = (case b of
                      [] \<Rightarrow> Some (foldl fadd (foldl fadd t (map approximateDistance32 pl))
                                     (map approximateDistance32 pr), st)
                    | n # r \<Rightarrow>
                        curveLoop32 st l n r
                          (foldl fadd (foldl fadd t (map approximateDistance32 pl))
                             (map approximateDistance32 pr)))"
          using IH [OF r] by simp
        finally show "curveLoop32 st c l b t =
                   (case b of
                      [] \<Rightarrow> Some (foldl fadd t (map approximateDistance32 ps), st)
                    | n # r \<Rightarrow>
                        curveLoop32 st l n r (foldl fadd t (map approximateDistance32 ps)))"
          by (cases b) (simp_all add: ps)
      qed
    next
      case False
      with step have ps: "ps = [c]" by simp
      show ?thesis
      proof (intro allI)
        fix l b t
        show "curveLoop32 st c l b t =
                   (case b of
                      [] \<Rightarrow> Some (foldl fadd t (map approximateDistance32 ps), st)
                    | n # r \<Rightarrow>
                        curveLoop32 st l n r (foldl fadd t (map approximateDistance32 ps)))"
          using curveLoop32_flat_plain [OF False assms(2,3), of l b t]
          by (cases b) (simp_all add: ps)
      qed
    qed
  qed
  then show ?thesis by blast
qed

subsection \<open>Lengths are never negative\<close>












subsection \<open>Adding a length that is not negative\<close>




















subsection \<open>Runs on concrete inputs\<close>






lemma sumOrder_1:
  "approximateDistance32 (Quadratic32 (QuadraticBezier32 (Finite (- 17) (- 14), Finite (- 55) (- 14)) (Finite (- 14) (- 14), Finite (- 2) (- 14)) (Finite (- 3) (- 14), Finite 23 (- 14)))) = Finite 10537906 (- 31)"
  by code_simp

lemma sumOrder_2:
  "distanceLine32 (Finite (- 17) (- 14), Finite (- 55) (- 14)) (Finite (- 3) (- 14), Finite 23 (- 14)) = Finite 10386991 (- 31)"
  by code_simp

lemma sumOrder_3:
  "fless kPathSegmentLengthTolerance32 (fsub (Finite 10537906 (- 31)) (Finite 10386991 (- 31)))"
  by code_simp

lemma sumOrder_4:
  "splitCurve32 (Quadratic32 (QuadraticBezier32 (Finite (- 17) (- 14), Finite (- 55) (- 14)) (Finite (- 14) (- 14), Finite (- 2) (- 14)) (Finite (- 3) (- 14), Finite 23 (- 14)))) = (Quadratic32 (QuadraticBezier32 (Finite (- 17) (- 14), Finite (- 55) (- 14)) (Finite (- 16252928) (- 34), Finite (- 14942208) (- 33)) (Finite (- 12582912) (- 34), Finite (- 9437184) (- 34))), Quadratic32 (QuadraticBezier32 (Finite (- 12582912) (- 34), Finite (- 9437184) (- 34)) (Finite (- 8912896) (- 34), Finite 11010048 (- 34)) (Finite (- 3) (- 14), Finite 23 (- 14))))"
  by code_simp

lemma sumOrder_5:
  "approximateDistance32 (Quadratic32 (QuadraticBezier32 (Finite (- 17) (- 14), Finite (- 55) (- 14)) (Finite (- 16252928) (- 34), Finite (- 14942208) (- 33)) (Finite (- 12582912) (- 34), Finite (- 9437184) (- 34)))) = Finite 12151432 (- 32)"
  by code_simp

lemma sumOrder_6:
  "distanceLine32 (Finite (- 17) (- 14), Finite (- 55) (- 14)) (Finite (- 12582912) (- 34), Finite (- 9437184) (- 34)) = Finite 12129650 (- 32)"
  by code_simp

lemma sumOrder_7:
  "\<not> fless kPathSegmentLengthTolerance32 (fsub (Finite 12151432 (- 32)) (Finite 12129650 (- 32)))"
  by code_simp

lemma sumOrder_8:
  "fadd (Finite 0 0) (Finite 12151432 (- 32)) = Finite 12151432 (- 32)"
  by code_simp

lemma sumOrder_9:
  "approximateDistance32 (Quadratic32 (QuadraticBezier32 (Finite (- 12582912) (- 34), Finite (- 9437184) (- 34)) (Finite (- 8912896) (- 34), Finite 11010048 (- 34)) (Finite (- 3) (- 14), Finite 23 (- 14)))) = Finite 8773465 (- 32)"
  by code_simp

lemma sumOrder_10:
  "distanceLine32 (Finite (- 12582912) (- 34), Finite (- 9437184) (- 34)) (Finite (- 3) (- 14), Finite 23 (- 14)) = Finite 8714070 (- 32)"
  by code_simp

lemma sumOrder_11:
  "fless kPathSegmentLengthTolerance32 (fsub (Finite 8773465 (- 32)) (Finite 8714070 (- 32)))"
  by code_simp

lemma sumOrder_12:
  "splitCurve32 (Quadratic32 (QuadraticBezier32 (Finite (- 12582912) (- 34), Finite (- 9437184) (- 34)) (Finite (- 8912896) (- 34), Finite 11010048 (- 34)) (Finite (- 3) (- 14), Finite 23 (- 14)))) = (Quadratic32 (QuadraticBezier32 (Finite (- 12582912) (- 34), Finite (- 9437184) (- 34)) (Finite (- 10747904) (- 34), Finite 12582912 (- 38)) (Finite (- 8388608) (- 34), Finite 9175040 (- 34))), Quadratic32 (QuadraticBezier32 (Finite (- 8388608) (- 34), Finite 9175040 (- 34)) (Finite (- 12058624) (- 35), Finite 8781824 (- 33)) (Finite (- 3) (- 14), Finite 23 (- 14))))"
  by code_simp

lemma sumOrder_13:
  "approximateDistance32 (Quadratic32 (QuadraticBezier32 (Finite (- 12582912) (- 34), Finite (- 9437184) (- 34)) (Finite (- 10747904) (- 34), Finite 12582912 (- 38)) (Finite (- 8388608) (- 34), Finite 9175040 (- 34)))) = Finite 9550530 (- 33)"
  by code_simp

lemma sumOrder_14:
  "distanceLine32 (Finite (- 12582912) (- 34), Finite (- 9437184) (- 34)) (Finite (- 8388608) (- 34), Finite 9175040 (- 34)) = Finite 9539485 (- 33)"
  by code_simp

lemma sumOrder_15:
  "\<not> fless kPathSegmentLengthTolerance32 (fsub (Finite 9550530 (- 33)) (Finite 9539485 (- 33)))"
  by code_simp

lemma sumOrder_16:
  "fadd (Finite 12151432 (- 32)) (Finite 9550530 (- 33)) = Finite 8463348 (- 31)"
  by code_simp

lemma sumOrder_17:
  "approximateDistance32 (Quadratic32 (QuadraticBezier32 (Finite (- 8388608) (- 34), Finite 9175040 (- 34)) (Finite (- 12058624) (- 35), Finite 8781824 (- 33)) (Finite (- 3) (- 14), Finite 23 (- 14)))) = Finite 15874009 (- 34)"
  by code_simp

lemma sumOrder_18:
  "distanceLine32 (Finite (- 8388608) (- 34), Finite 9175040 (- 34)) (Finite (- 3) (- 14), Finite 23 (- 14)) = Finite 15835320 (- 34)"
  by code_simp

lemma sumOrder_19:
  "\<not> fless kPathSegmentLengthTolerance32 (fsub (Finite 15874009 (- 34)) (Finite 15835320 (- 34)))"
  by code_simp

lemma sumOrder_20:
  "fadd (Finite 8463348 (- 31)) (Finite 15874009 (- 34)) = Finite 10447599 (- 31)"
  by code_simp

lemma sumOrder_21:
  "\<not> fle (fsub (Finite 10537906 (- 31)) (Finite 10386991 (- 31))) kPathSegmentLengthTolerance32"
  by code_simp

lemma sumOrder_22:
  "fle (fsub (Finite 12151432 (- 32)) (Finite 12129650 (- 32))) kPathSegmentLengthTolerance32"
  by code_simp

lemma sumOrder_23:
  "\<not> fle (fsub (Finite 8773465 (- 32)) (Finite 8714070 (- 32))) kPathSegmentLengthTolerance32"
  by code_simp

lemma sumOrder_24:
  "fle (fsub (Finite 9550530 (- 33)) (Finite 9539485 (- 33))) kPathSegmentLengthTolerance32"
  by code_simp

lemma sumOrder_25:
  "fle (fsub (Finite 15874009 (- 34)) (Finite 15835320 (- 34))) kPathSegmentLengthTolerance32"
  by code_simp

lemma sumOrder_26:
  "fadd (Finite 9550530 (- 33)) (Finite 15874009 (- 34)) = Finite 8743767 (- 32)"
  by code_simp

lemma sumOrder_27:
  "fadd (Finite 12151432 (- 32)) (Finite 8743767 (- 32)) = Finite 10447600 (- 31)"
  by code_simp

lemma sumOrder_rec_1:
  "recLen32 (Quadratic32 (QuadraticBezier32 (Finite (- 17) (- 14), Finite (- 55) (- 14)) (Finite (- 16252928) (- 34), Finite (- 14942208) (- 33)) (Finite (- 12582912) (- 34), Finite (- 9437184) (- 34)))) = Some (Finite 12151432 (- 32))"
  by (subst recLen32.simps) (simp add: sumOrder_5 sumOrder_6 sumOrder_22)

lemma sumOrder_rec_2:
  "recLen32 (Quadratic32 (QuadraticBezier32 (Finite (- 12582912) (- 34), Finite (- 9437184) (- 34)) (Finite (- 10747904) (- 34), Finite 12582912 (- 38)) (Finite (- 8388608) (- 34), Finite 9175040 (- 34)))) = Some (Finite 9550530 (- 33))"
  by (subst recLen32.simps) (simp add: sumOrder_13 sumOrder_14 sumOrder_24)

lemma sumOrder_rec_3:
  "recLen32 (Quadratic32 (QuadraticBezier32 (Finite (- 8388608) (- 34), Finite 9175040 (- 34)) (Finite (- 12058624) (- 35), Finite 8781824 (- 33)) (Finite (- 3) (- 14), Finite 23 (- 14)))) = Some (Finite 15874009 (- 34))"
  by (subst recLen32.simps) (simp add: sumOrder_17 sumOrder_18 sumOrder_25)

lemma sumOrder_rec_4:
  "recLen32 (Quadratic32 (QuadraticBezier32 (Finite (- 12582912) (- 34), Finite (- 9437184) (- 34)) (Finite (- 8912896) (- 34), Finite 11010048 (- 34)) (Finite (- 3) (- 14), Finite 23 (- 14)))) = Some (Finite 8743767 (- 32))"
  by (subst recLen32.simps) (simp add: sumOrder_9 sumOrder_10 sumOrder_23 sumOrder_12 sumOrder_rec_2 sumOrder_rec_3 sumOrder_26)

lemma sumOrder_rec_5:
  "recLen32 (Quadratic32 (QuadraticBezier32 (Finite (- 17) (- 14), Finite (- 55) (- 14)) (Finite (- 14) (- 14), Finite (- 2) (- 14)) (Finite (- 3) (- 14), Finite 23 (- 14)))) = Some (Finite 10447600 (- 31))"
  by (subst recLen32.simps) (simp add: sumOrder_1 sumOrder_2 sumOrder_21 sumOrder_4 sumOrder_rec_1 sumOrder_rec_4 sumOrder_27)

lemma sumOrder_pieces_1:
  "flatPieces32 (Quadratic32 (QuadraticBezier32 (Finite (- 17) (- 14), Finite (- 55) (- 14)) (Finite (- 16252928) (- 34), Finite (- 14942208) (- 33)) (Finite (- 12582912) (- 34), Finite (- 9437184) (- 34)))) = Some ([Quadratic32 (QuadraticBezier32 (Finite (- 17) (- 14), Finite (- 55) (- 14)) (Finite (- 16252928) (- 34), Finite (- 14942208) (- 33)) (Finite (- 12582912) (- 34), Finite (- 9437184) (- 34)))])"
  by (subst flatPieces32.simps) (simp add: sumOrder_5 sumOrder_6 sumOrder_7)

lemma sumOrder_pieces_2:
  "flatPieces32 (Quadratic32 (QuadraticBezier32 (Finite (- 12582912) (- 34), Finite (- 9437184) (- 34)) (Finite (- 10747904) (- 34), Finite 12582912 (- 38)) (Finite (- 8388608) (- 34), Finite 9175040 (- 34)))) = Some ([Quadratic32 (QuadraticBezier32 (Finite (- 12582912) (- 34), Finite (- 9437184) (- 34)) (Finite (- 10747904) (- 34), Finite 12582912 (- 38)) (Finite (- 8388608) (- 34), Finite 9175040 (- 34)))])"
  by (subst flatPieces32.simps) (simp add: sumOrder_13 sumOrder_14 sumOrder_15)

lemma sumOrder_pieces_3:
  "flatPieces32 (Quadratic32 (QuadraticBezier32 (Finite (- 8388608) (- 34), Finite 9175040 (- 34)) (Finite (- 12058624) (- 35), Finite 8781824 (- 33)) (Finite (- 3) (- 14), Finite 23 (- 14)))) = Some ([Quadratic32 (QuadraticBezier32 (Finite (- 8388608) (- 34), Finite 9175040 (- 34)) (Finite (- 12058624) (- 35), Finite 8781824 (- 33)) (Finite (- 3) (- 14), Finite 23 (- 14)))])"
  by (subst flatPieces32.simps) (simp add: sumOrder_17 sumOrder_18 sumOrder_19)

lemma sumOrder_pieces_4:
  "flatPieces32 (Quadratic32 (QuadraticBezier32 (Finite (- 12582912) (- 34), Finite (- 9437184) (- 34)) (Finite (- 8912896) (- 34), Finite 11010048 (- 34)) (Finite (- 3) (- 14), Finite 23 (- 14)))) = Some [Quadratic32 (QuadraticBezier32 (Finite (- 12582912) (- 34), Finite (- 9437184) (- 34)) (Finite (- 10747904) (- 34), Finite 12582912 (- 38)) (Finite (- 8388608) (- 34), Finite 9175040 (- 34))), Quadratic32 (QuadraticBezier32 (Finite (- 8388608) (- 34), Finite 9175040 (- 34)) (Finite (- 12058624) (- 35), Finite 8781824 (- 33)) (Finite (- 3) (- 14), Finite 23 (- 14)))]"
  by (subst flatPieces32.simps) (simp add: sumOrder_9 sumOrder_10 sumOrder_11 sumOrder_12 sumOrder_pieces_2 sumOrder_pieces_3)

lemma sumOrder_pieces_5:
  "flatPieces32 (Quadratic32 (QuadraticBezier32 (Finite (- 17) (- 14), Finite (- 55) (- 14)) (Finite (- 14) (- 14), Finite (- 2) (- 14)) (Finite (- 3) (- 14), Finite 23 (- 14)))) = Some [Quadratic32 (QuadraticBezier32 (Finite (- 17) (- 14), Finite (- 55) (- 14)) (Finite (- 16252928) (- 34), Finite (- 14942208) (- 33)) (Finite (- 12582912) (- 34), Finite (- 9437184) (- 34))), Quadratic32 (QuadraticBezier32 (Finite (- 12582912) (- 34), Finite (- 9437184) (- 34)) (Finite (- 10747904) (- 34), Finite 12582912 (- 38)) (Finite (- 8388608) (- 34), Finite 9175040 (- 34))), Quadratic32 (QuadraticBezier32 (Finite (- 8388608) (- 34), Finite 9175040 (- 34)) (Finite (- 12058624) (- 35), Finite 8781824 (- 33)) (Finite (- 3) (- 14), Finite 23 (- 14)))]"
  by (subst flatPieces32.simps) (simp add: sumOrder_1 sumOrder_2 sumOrder_3 sumOrder_4 sumOrder_pieces_1 sumOrder_pieces_4)

lemma sumOrder_run:
  "curveLength32 (newPathTraversalState32 TraversalTotalLength) (Quadratic32 (QuadraticBezier32 (Finite (- 17) (- 14), Finite (- 55) (- 14)) (Finite (- 14) (- 14), Finite (- 2) (- 14)) (Finite (- 3) (- 14), Finite 23 (- 14)))) = Some (Finite 10447599 (- 31), newPathTraversalState32 TraversalTotalLength)"
  unfolding curveLength32_def
  apply (subst curveLoop32.simps, simp add: sumOrder_1 sumOrder_2 sumOrder_3 sumOrder_4 Let_def newPathTraversalState32_def)
  apply (subst curveLoop32.simps, simp add: sumOrder_5 sumOrder_6 sumOrder_7 sumOrder_8 Let_def newPathTraversalState32_def)
  apply (subst curveLoop32.simps, simp add: sumOrder_9 sumOrder_10 sumOrder_11 sumOrder_12 Let_def newPathTraversalState32_def)
  apply (subst curveLoop32.simps, simp add: sumOrder_13 sumOrder_14 sumOrder_15 sumOrder_16 Let_def newPathTraversalState32_def)
  apply (subst curveLoop32.simps, simp add: sumOrder_17 sumOrder_18 sumOrder_19 sumOrder_20 Let_def newPathTraversalState32_def)
  done

lemma sumOrder_recLen: "recLen32 (Quadratic32 (QuadraticBezier32 (Finite (- 17) (- 14), Finite (- 55) (- 14)) (Finite (- 14) (- 14), Finite (- 2) (- 14)) (Finite (- 3) (- 14), Finite 23 (- 14)))) = Some (Finite 10447600 (- 31))"
  by (rule sumOrder_rec_5)






























lemma sumOrder_total:
  "foldl fadd (Finite 0 0)
     (map approximateDistance32
        [Quadratic32 (QuadraticBezier32 (Finite (- 17) (- 14), Finite (- 55) (- 14)) (Finite (- 16252928) (- 34), Finite (- 14942208) (- 33)) (Finite (- 12582912) (- 34), Finite (- 9437184) (- 34))),
            Quadratic32 (QuadraticBezier32 (Finite (- 12582912) (- 34), Finite (- 9437184) (- 34)) (Finite (- 10747904) (- 34), Finite 12582912 (- 38)) (Finite (- 8388608) (- 34), Finite 9175040 (- 34))),
            Quadratic32 (QuadraticBezier32 (Finite (- 8388608) (- 34), Finite 9175040 (- 34)) (Finite (- 12058624) (- 35), Finite 8781824 (- 33)) (Finite (- 3) (- 14), Finite 23 (- 14)))])
   = Finite 10447599 (- 31)"
  by (simp add: sumOrder_5 sumOrder_13 sumOrder_17 sumOrder_8 sumOrder_16 sumOrder_20)

section \<open>Properties\<close>

subsection \<open>Midpoint subdivision\<close>


subsection \<open>Closing a subpath\<close>

text \<open>
  C6. \<open>closeSubpath\<close> returns the distance from the current point to the subpath start
  held before the call; afterwards the subpath start and both control points equal the
  current point, which does not move.
\<close>

theorem closeSubpath_distance_then_reset:
  "fst (closeSubpath s) = distanceLine (m_current s) (m_start s)
   \<and> m_start (snd (closeSubpath s)) = m_current s
   \<and> m_control1 (snd (closeSubpath s)) = m_current s
   \<and> m_control2 (snd (closeSubpath s)) = m_current s
   \<and> m_current (snd (closeSubpath s)) = m_current s
   \<and> m_previous (snd (closeSubpath s)) = m_previous s"
  by (simp add: closeSubpath_def Let_def)

subsection \<open>The loop against the recursive length\<close>

text \<open>
  C10 (as the code has it). Under the total-length action, whenever the subdivision of the
  input curve ends in flat pieces, the explicit-stack loop returns the sum of their
  \<open>approximateDistance()\<close> values, added one after the other onto 0 from the start of the
  curve to its end, and leaves the state as it was. The copy of the input appended to the
  stack at entry is only popped and never measured. This is stated over binary32, with the
  loop's own flatness test.
\<close>

theorem curveLength32_sums_flat_pieces:
  assumes "m_action32 st = TraversalTotalLength" and "flatPieces32 c = Some ps"
  shows "curveLength32 st c
           = Some (foldl fadd (Finite 0 0) (map approximateDistance32 ps), st)"
  using curveLoop32_pieces [OF assms(2), of st c "[]" "Finite 0 0"] assms(1)
  by (simp add: curveLength32_def)

theorem curveLength32_sums_flat_pieces_witness:
  "m_action32 (newPathTraversalState32 TraversalTotalLength) = TraversalTotalLength
   \<and> flatPieces32 (Quadratic32 (QuadraticBezier32 (Finite (- 17) (- 14), Finite (- 55) (- 14)) (Finite (- 14) (- 14), Finite (- 2) (- 14)) (Finite (- 3) (- 14), Finite 23 (- 14))))
       = Some [Quadratic32 (QuadraticBezier32 (Finite (- 17) (- 14), Finite (- 55) (- 14)) (Finite (- 16252928) (- 34), Finite (- 14942208) (- 33)) (Finite (- 12582912) (- 34), Finite (- 9437184) (- 34))),
            Quadratic32 (QuadraticBezier32 (Finite (- 12582912) (- 34), Finite (- 9437184) (- 34)) (Finite (- 10747904) (- 34), Finite 12582912 (- 38)) (Finite (- 8388608) (- 34), Finite 9175040 (- 34))),
            Quadratic32 (QuadraticBezier32 (Finite (- 8388608) (- 34), Finite 9175040 (- 34)) (Finite (- 12058624) (- 35), Finite 8781824 (- 33)) (Finite (- 3) (- 14), Finite 23 (- 14)))]
   \<and> curveLength32 (newPathTraversalState32 TraversalTotalLength) (Quadratic32 (QuadraticBezier32 (Finite (- 17) (- 14), Finite (- 55) (- 14)) (Finite (- 14) (- 14), Finite (- 2) (- 14)) (Finite (- 3) (- 14), Finite 23 (- 14))))
       = Some (foldl fadd (Finite 0 0)
                 (map approximateDistance32
                    [Quadratic32 (QuadraticBezier32 (Finite (- 17) (- 14), Finite (- 55) (- 14)) (Finite (- 16252928) (- 34), Finite (- 14942208) (- 33)) (Finite (- 12582912) (- 34), Finite (- 9437184) (- 34))),
            Quadratic32 (QuadraticBezier32 (Finite (- 12582912) (- 34), Finite (- 9437184) (- 34)) (Finite (- 10747904) (- 34), Finite 12582912 (- 38)) (Finite (- 8388608) (- 34), Finite 9175040 (- 34))),
            Quadratic32 (QuadraticBezier32 (Finite (- 8388608) (- 34), Finite 9175040 (- 34)) (Finite (- 12058624) (- 35), Finite 8781824 (- 33)) (Finite (- 3) (- 14), Finite 23 (- 14)))]),
               newPathTraversalState32 TraversalTotalLength)
   \<and> foldl fadd (Finite 0 0)
         (map approximateDistance32
            [Quadratic32 (QuadraticBezier32 (Finite (- 17) (- 14), Finite (- 55) (- 14)) (Finite (- 16252928) (- 34), Finite (- 14942208) (- 33)) (Finite (- 12582912) (- 34), Finite (- 9437184) (- 34))),
            Quadratic32 (QuadraticBezier32 (Finite (- 12582912) (- 34), Finite (- 9437184) (- 34)) (Finite (- 10747904) (- 34), Finite 12582912 (- 38)) (Finite (- 8388608) (- 34), Finite 9175040 (- 34))),
            Quadratic32 (QuadraticBezier32 (Finite (- 8388608) (- 34), Finite 9175040 (- 34)) (Finite (- 12058624) (- 35), Finite 8781824 (- 33)) (Finite (- 3) (- 14), Finite 23 (- 14)))])
       = Finite 10447599 (- 31)"
  using curveLength32_sums_flat_pieces
    [of "newPathTraversalState32 TraversalTotalLength" "Quadratic32 (QuadraticBezier32 (Finite (- 17) (- 14), Finite (- 55) (- 14)) (Finite (- 14) (- 14), Finite (- 2) (- 14)) (Finite (- 3) (- 14), Finite 23 (- 14)))"
        "[Quadratic32 (QuadraticBezier32 (Finite (- 17) (- 14), Finite (- 55) (- 14)) (Finite (- 16252928) (- 34), Finite (- 14942208) (- 33)) (Finite (- 12582912) (- 34), Finite (- 9437184) (- 34))),
            Quadratic32 (QuadraticBezier32 (Finite (- 12582912) (- 34), Finite (- 9437184) (- 34)) (Finite (- 10747904) (- 34), Finite 12582912 (- 38)) (Finite (- 8388608) (- 34), Finite 9175040 (- 34))),
            Quadratic32 (QuadraticBezier32 (Finite (- 8388608) (- 34), Finite 9175040 (- 34)) (Finite (- 12058624) (- 35), Finite 8781824 (- 33)) (Finite (- 3) (- 14), Finite 23 (- 14)))]"]
    sumOrder_pieces_5 sumOrder_total
  by (simp add: newPathTraversalState32_def)

text \<open>
  The recursive definition adds the lengths of the two halves instead, and float addition
  is not associative. The quadratic curve \<open>(-17,-55), (-14,-2), (-3,23)\<close>, in units of
  \<open>2\<^sup>-\<^sup>1\<^sup>4\<close>, has three flat pieces: the loop returns \<open>10447599 \<times> 2\<^sup>-\<^sup>3\<^sup>1\<close> and the
  recursion \<open>10447600 \<times> 2\<^sup>-\<^sup>3\<^sup>1\<close>.
\<close>

theorem curveLength32_recLen32_counterexample:
  "curveLength32 (newPathTraversalState32 TraversalTotalLength) (Quadratic32 (QuadraticBezier32 (Finite (- 17) (- 14), Finite (- 55) (- 14)) (Finite (- 14) (- 14), Finite (- 2) (- 14)) (Finite (- 3) (- 14), Finite 23 (- 14))))
     = Some (Finite 10447599 (- 31), newPathTraversalState32 TraversalTotalLength)
   \<and> recLen32 (Quadratic32 (QuadraticBezier32 (Finite (- 17) (- 14), Finite (- 55) (- 14)) (Finite (- 14) (- 14), Finite (- 2) (- 14)) (Finite (- 3) (- 14), Finite 23 (- 14)))) = Some (Finite 10447600 (- 31))
   \<and> fless (Finite 10447599 (- 31)) (Finite 10447600 (- 31))"
proof (intro conjI)
  show "curveLength32 (newPathTraversalState32 TraversalTotalLength) (Quadratic32 (QuadraticBezier32 (Finite (- 17) (- 14), Finite (- 55) (- 14)) (Finite (- 14) (- 14), Finite (- 2) (- 14)) (Finite (- 3) (- 14), Finite 23 (- 14))))
     = Some (Finite 10447599 (- 31), newPathTraversalState32 TraversalTotalLength)"
    by (rule sumOrder_run)
  show "recLen32 (Quadratic32 (QuadraticBezier32 (Finite (- 17) (- 14), Finite (- 55) (- 14)) (Finite (- 14) (- 14), Finite (- 2) (- 14)) (Finite (- 3) (- 14), Finite 23 (- 14)))) = Some (Finite 10447600 (- 31))"
    by (rule sumOrder_recLen)
  show "fless (Finite 10447599 (- 31)) (Finite 10447600 (- 31))"
    by code_simp
qed

subsection \<open>Chord lower bound\<close>




subsection \<open>Degenerate curves\<close>

text \<open>
  C8. A quadratic or cubic curve whose control points all coincide passes the flatness
  test in the first iteration, and \<open>curveLength\<close> returns 0 for it under every action.
\<close>

theorem degenerate_curve_zero_length:
  "\<not> kPathSegmentLengthTolerance
       < approximateDistance (Quadratic (QuadraticBezier P P P))
           - distanceLine (curveStart (Quadratic (QuadraticBezier P P P)))
               (curveEnd (Quadratic (QuadraticBezier P P P)))
   \<and> \<not> kPathSegmentLengthTolerance
       < approximateDistance (Cubic (CubicBezier P P P P))
           - distanceLine (curveStart (Cubic (CubicBezier P P P P)))
               (curveEnd (Cubic (CubicBezier P P P P)))
   \<and> fst (curveLength st (Quadratic (QuadraticBezier P P P))) = 0
   \<and> fst (curveLength st (Cubic (CubicBezier P P P P))) = 0"
  by (simp add: curveLength_def curveLoop.simps [of _ _ _ "[]"] q_approximateDistance_def 
        c_approximateDistance_def distanceLine_same kPathSegmentLengthTolerance_def Let_def)

subsection \<open>One iteration of the loop\<close>

text \<open>
  C1 (as the code has it). Every iteration compares the slack, \<open>approximateDistance()\<close>
  minus the chord, with the tolerance. When the slack is larger the piece is split, the
  left half becomes the current piece and the right half is pushed. Otherwise the piece is
  flat and its \<open>approximateDistance()\<close>, the length of the control polygon, is what is
  added to the running length; the chord is not. This is so under every action: under the
  total-length action the loop goes on with the next stack entry, and under the two query
  actions it first records the piece's ends and returns early when the target is passed.
\<close>

theorem curveLoop_iteration:
  "(kPathSegmentLengthTolerance
      < approximateDistance c - distanceLine (curveStart c) (curveEnd c)
    \<longrightarrow> curveLoop st c l b t
          = curveLoop st (fst (splitCurve c)) (snd (splitCurve c)) (l # b) t)
   \<and> (\<not> kPathSegmentLengthTolerance
          < approximateDistance c' - distanceLine (curveStart c') (curveEnd c')
        \<and> m_action st' \<noteq> TraversalPointAtLength
        \<and> m_action st' \<noteq> TraversalNormalAngleAtLength
    \<longrightarrow> curveLoop st' c' l' b' t'
          = (case b' of
               [] \<Rightarrow> (t' + approximateDistance c', st')
             | n # r \<Rightarrow> curveLoop st' l' n r (t' + approximateDistance c')))
   \<and> (\<not> kPathSegmentLengthTolerance
          < approximateDistance c'' - distanceLine (curveStart c'') (curveEnd c'')
        \<and> (m_action st'' = TraversalPointAtLength
             \<or> m_action st'' = TraversalNormalAngleAtLength)
    \<longrightarrow> curveLoop st'' c'' l'' b'' t''
          = (if m_totalLength st'' + (t'' + approximateDistance c'') > m_desiredLength st''
             then (t'' + approximateDistance c'',
                   st''\<lparr>m_previous := curveStart c'', m_current := curveEnd c''\<rparr>)
             else (case b'' of
                     [] \<Rightarrow> (t'' + approximateDistance c'',
                            st''\<lparr>m_previous := curveStart c'', m_current := curveEnd c''\<rparr>)
                   | n # r \<Rightarrow>
                       curveLoop (st''\<lparr>m_previous := curveStart c'', m_current := curveEnd c''\<rparr>)
                         l'' n r (t'' + approximateDistance c''))))"
proof (intro conjI impI)
  assume "kPathSegmentLengthTolerance
            < approximateDistance c - distanceLine (curveStart c) (curveEnd c)"
  then show "curveLoop st c l b t
               = curveLoop st (fst (splitCurve c)) (snd (splitCurve c)) (l # b) t"
    by (rule curveLoop_split)
next
  assume "\<not> kPathSegmentLengthTolerance
              < approximateDistance c' - distanceLine (curveStart c') (curveEnd c')
          \<and> m_action st' \<noteq> TraversalPointAtLength
          \<and> m_action st' \<noteq> TraversalNormalAngleAtLength"
  then show "curveLoop st' c' l' b' t'
          = (case b' of
               [] \<Rightarrow> (t' + approximateDistance c', st')
             | n # r \<Rightarrow> curveLoop st' l' n r (t' + approximateDistance c'))"
    by (intro curveLoop_flat_plain) simp_all
next
  assume a: "\<not> kPathSegmentLengthTolerance
              < approximateDistance c'' - distanceLine (curveStart c'') (curveEnd c'')
          \<and> (m_action st'' = TraversalPointAtLength
               \<or> m_action st'' = TraversalNormalAngleAtLength)"
  show "curveLoop st'' c'' l'' b'' t''
          = (if m_totalLength st'' + (t'' + approximateDistance c'') > m_desiredLength st''
             then (t'' + approximateDistance c'',
                   st''\<lparr>m_previous := curveStart c'', m_current := curveEnd c''\<rparr>)
             else (case b'' of
                     [] \<Rightarrow> (t'' + approximateDistance c'',
                            st''\<lparr>m_previous := curveStart c'', m_current := curveEnd c''\<rparr>)
                   | n # r \<Rightarrow>
                       curveLoop (st''\<lparr>m_previous := curveStart c'', m_current := curveEnd c''\<rparr>)
                         l'' n r (t'' + approximateDistance c'')))"
    using curveLoop_flat_query [of c'' st'' l'' b'' t''] a by simp
qed

theorem curveLoop_iteration_witness:
  "kPathSegmentLengthTolerance
      < approximateDistance (Quadratic (QuadraticBezier (0, 0) (1, 0) (0, 0)))
          - distanceLine (curveStart (Quadratic (QuadraticBezier (0, 0) (1, 0) (0, 0))))
              (curveEnd (Quadratic (QuadraticBezier (0, 0) (1, 0) (0, 0))))
   \<and> curveLoop (newPathTraversalState TraversalTotalLength)
         (Quadratic (QuadraticBezier (0, 0) (1, 0) (0, 0)))
         (Quadratic (QuadraticBezier (0, 0) (1, 0) (0, 0))) [] 0
       = curveLoop (newPathTraversalState TraversalTotalLength)
           (Quadratic (QuadraticBezier (0, 0) (1 / 2, 0) (1 / 2, 0)))
           (Quadratic (QuadraticBezier (1 / 2, 0) (1 / 2, 0) (0, 0)))
           [Quadratic (QuadraticBezier (0, 0) (1, 0) (0, 0))] 0
   \<and> \<not> kPathSegmentLengthTolerance
         < approximateDistance (Quadratic (QuadraticBezier (0, 0) (1 + 1 / 262144, 0) (1, 0)))
             - distanceLine
                 (curveStart (Quadratic (QuadraticBezier (0, 0) (1 + 1 / 262144, 0) (1, 0))))
                 (curveEnd (Quadratic (QuadraticBezier (0, 0) (1 + 1 / 262144, 0) (1, 0))))
   \<and> m_action (newPathTraversalState TraversalTotalLength) \<noteq> TraversalPointAtLength
   \<and> m_action (newPathTraversalState TraversalTotalLength) \<noteq> TraversalNormalAngleAtLength
   \<and> curveLoop (newPathTraversalState TraversalTotalLength)
         (Quadratic (QuadraticBezier (0, 0) (1 + 1 / 262144, 0) (1, 0)))
         (Quadratic (QuadraticBezier (0, 0) (1 + 1 / 262144, 0) (1, 0))) [] 0
       = (1 + 1 / 131072, newPathTraversalState TraversalTotalLength)
   \<and> (m_action ((newPathTraversalState TraversalNormalAngleAtLength)\<lparr>m_desiredLength := 3\<rparr>)
         = TraversalPointAtLength
       \<or> m_action ((newPathTraversalState TraversalNormalAngleAtLength)\<lparr>m_desiredLength := 3\<rparr>)
         = TraversalNormalAngleAtLength)
   \<and> curveLoop ((newPathTraversalState TraversalNormalAngleAtLength)\<lparr>m_desiredLength := 3\<rparr>)
         (Quadratic (QuadraticBezier (0, 0) (1 + 1 / 262144, 0) (1, 0)))
         (Quadratic (QuadraticBezier (0, 0) (1 + 1 / 262144, 0) (1, 0))) [] 0
       = (1 + 1 / 131072,
          (newPathTraversalState TraversalNormalAngleAtLength)
            \<lparr>m_desiredLength := 3, m_previous := (0, 0), m_current := (1, 0)\<rparr>)"
  using curveLoop_iteration
    [where c = "Quadratic (QuadraticBezier (0, 0) (1, 0) (0, 0))"
       and st = "newPathTraversalState TraversalTotalLength"
       and l = "Quadratic (QuadraticBezier (0, 0) (1, 0) (0, 0))" and b = "[]" and t = 0
       and c' = "Quadratic (QuadraticBezier (0, 0) (1 + 1 / 262144, 0) (1, 0))"
       and st' = "newPathTraversalState TraversalTotalLength"
       and l' = "Quadratic (QuadraticBezier (0, 0) (1 + 1 / 262144, 0) (1, 0))"
       and b' = "[]" and t' = 0
       and c'' = "Quadratic (QuadraticBezier (0, 0) (1 + 1 / 262144, 0) (1, 0))"
       and st'' = "(newPathTraversalState TraversalNormalAngleAtLength)\<lparr>m_desiredLength := 3\<rparr>"
       and l'' = "Quadratic (QuadraticBezier (0, 0) (1 + 1 / 262144, 0) (1, 0))"
       and b'' = "[]" and t'' = 0]
  by (simp add: q_approximateDistance_def distanceLine_horizontal kPathSegmentLengthTolerance_def
        newPathTraversalState_def q_split_def midPoint_def Let_def)

text \<open>
  The quadratic curve \<open>(0,0), (1 + 2\<^sup>-\<^sup>1\<^sup>8, 0), (1,0)\<close> is flat: its slack is
  \<open>2\<^sup>-\<^sup>1\<^sup>7\<close>. Its chord is 1, and the length returned for it is \<open>1 + 2\<^sup>-\<^sup>1\<^sup>7\<close>.
\<close>

theorem curveLoop_adds_chord_counterexample:
  "\<not> kPathSegmentLengthTolerance
       < approximateDistance (Quadratic (QuadraticBezier (0, 0) (1 + 1 / 262144, 0) (1, 0)))
           - distanceLine (0, 0) (1, 0)
   \<and> fst (curveLength (newPathTraversalState TraversalTotalLength)
            (Quadratic (QuadraticBezier (0, 0) (1 + 1 / 262144, 0) (1, 0))))
       = 1 + 1 / 131072
   \<and> distanceLine (0, 0) (1, 0) = 1
   \<and> fst (curveLength (newPathTraversalState TraversalTotalLength)
            (Quadratic (QuadraticBezier (0, 0) (1 + 1 / 262144, 0) (1, 0))))
       \<noteq> distanceLine (0, 0) (1, 0)"
  by (simp add: curveLength_def curveLoop.simps [of _ _ _ "[]"] q_approximateDistance_def
        distanceLine_horizontal kPathSegmentLengthTolerance_def Let_def newPathTraversalState_def)

subsection \<open>Accepting a flat piece during a point or angle query\<close>

text \<open>
  C3. Under the point-at-length and normal-angle-at-length actions, accepting a flat piece
  sets \<open>m_previous\<close> to the piece's start and \<open>m_current\<close> to its end. When the state's
  total length plus the running length (the piece included) strictly exceeds the desired
  length, the running length is returned at once, whatever the stack holds; otherwise the
  loop goes on with the next stack entry and the updated state.
\<close>

theorem curveLoop_query_flat_piece:
  assumes "m_action st = TraversalPointAtLength \<or> m_action st = TraversalNormalAngleAtLength"
    and "\<not> kPathSegmentLengthTolerance
            < approximateDistance c - distanceLine (curveStart c) (curveEnd c)"
  shows "curveLoop st c l b t =
           (if m_totalLength st + (t + approximateDistance c) > m_desiredLength st
            then (t + approximateDistance c,
                  st\<lparr>m_previous := curveStart c, m_current := curveEnd c\<rparr>)
            else (case b of
                    [] \<Rightarrow> (t + approximateDistance c,
                           st\<lparr>m_previous := curveStart c, m_current := curveEnd c\<rparr>)
                  | n # r \<Rightarrow>
                      curveLoop (st\<lparr>m_previous := curveStart c, m_current := curveEnd c\<rparr>)
                        l n r (t + approximateDistance c)))"
  using curveLoop_flat_query [OF assms(2) assms(1)] by simp

theorem curveLoop_query_flat_piece_witness:
  "(m_action ((newPathTraversalState TraversalPointAtLength)\<lparr>m_desiredLength := 1\<rparr>)
      = TraversalPointAtLength
    \<or> m_action ((newPathTraversalState TraversalPointAtLength)\<lparr>m_desiredLength := 1\<rparr>)
      = TraversalNormalAngleAtLength)
   \<and> \<not> kPathSegmentLengthTolerance
         < approximateDistance (Quadratic (QuadraticBezier (0, 0) (1, 0) (2, 0)))
             - distanceLine (curveStart (Quadratic (QuadraticBezier (0, 0) (1, 0) (2, 0))))
                 (curveEnd (Quadratic (QuadraticBezier (0, 0) (1, 0) (2, 0))))
   \<and> curveLoop ((newPathTraversalState TraversalPointAtLength)\<lparr>m_desiredLength := 1\<rparr>)
         (Quadratic (QuadraticBezier (0, 0) (1, 0) (2, 0)))
         (Quadratic (QuadraticBezier (2, 0) (3, 0) (4, 0)))
         [Quadratic (QuadraticBezier (0, 0) (2, 0) (4, 0))] 0
       = (2, (newPathTraversalState TraversalPointAtLength)
               \<lparr>m_desiredLength := 1, m_previous := (0, 0), m_current := (2, 0)\<rparr>)"
  using curveLoop_query_flat_piece
    [of "(newPathTraversalState TraversalPointAtLength)\<lparr>m_desiredLength := 1\<rparr>"
        "Quadratic (QuadraticBezier (0, 0) (1, 0) (2, 0))"
        "Quadratic (QuadraticBezier (2, 0) (3, 0) (4, 0))"
        "[Quadratic (QuadraticBezier (0, 0) (2, 0) (4, 0))]" 0]
  by (simp add: q_approximateDistance_def distanceLine_horizontal kPathSegmentLengthTolerance_def
        newPathTraversalState_def)

subsection \<open>The bookkeeping fields are left alone\<close>

text \<open>
  C7. None of \<open>moveTo\<close>, \<open>lineTo\<close>, \<open>quadraticBezierTo\<close>, \<open>cubicBezierTo\<close>,
  \<open>closeSubpath\<close> and \<open>curveLength\<close> changes the total length, the desired length, the
  action, the success flag, the segment index or the normal angle of the state.
\<close>

theorem segment_operations_frame:
  "m_totalLength (snd (moveTo p s)) = m_totalLength s
   \<and> m_desiredLength (snd (moveTo p s)) = m_desiredLength s
   \<and> m_action (snd (moveTo p s)) = m_action s
   \<and> m_success (snd (moveTo p s)) = m_success s
   \<and> m_segmentIndex (snd (moveTo p s)) = m_segmentIndex s
   \<and> m_normalAngle (snd (moveTo p s)) = m_normalAngle s
   \<and> m_totalLength (snd (lineTo p s)) = m_totalLength s
   \<and> m_desiredLength (snd (lineTo p s)) = m_desiredLength s
   \<and> m_action (snd (lineTo p s)) = m_action s
   \<and> m_success (snd (lineTo p s)) = m_success s
   \<and> m_segmentIndex (snd (lineTo p s)) = m_segmentIndex s
   \<and> m_normalAngle (snd (lineTo p s)) = m_normalAngle s
   \<and> m_totalLength (snd (quadraticBezierTo c e s)) = m_totalLength s
   \<and> m_desiredLength (snd (quadraticBezierTo c e s)) = m_desiredLength s
   \<and> m_action (snd (quadraticBezierTo c e s)) = m_action s
   \<and> m_success (snd (quadraticBezierTo c e s)) = m_success s
   \<and> m_segmentIndex (snd (quadraticBezierTo c e s)) = m_segmentIndex s
   \<and> m_normalAngle (snd (quadraticBezierTo c e s)) = m_normalAngle s
   \<and> m_totalLength (snd (cubicBezierTo c1 c2 e s)) = m_totalLength s
   \<and> m_desiredLength (snd (cubicBezierTo c1 c2 e s)) = m_desiredLength s
   \<and> m_action (snd (cubicBezierTo c1 c2 e s)) = m_action s
   \<and> m_success (snd (cubicBezierTo c1 c2 e s)) = m_success s
   \<and> m_segmentIndex (snd (cubicBezierTo c1 c2 e s)) = m_segmentIndex s
   \<and> m_normalAngle (snd (cubicBezierTo c1 c2 e s)) = m_normalAngle s
   \<and> m_totalLength (snd (closeSubpath s)) = m_totalLength s
   \<and> m_desiredLength (snd (closeSubpath s)) = m_desiredLength s
   \<and> m_action (snd (closeSubpath s)) = m_action s
   \<and> m_success (snd (closeSubpath s)) = m_success s
   \<and> m_segmentIndex (snd (closeSubpath s)) = m_segmentIndex s
   \<and> m_normalAngle (snd (closeSubpath s)) = m_normalAngle s
   \<and> m_totalLength (snd (curveLength s k)) = m_totalLength s
   \<and> m_desiredLength (snd (curveLength s k)) = m_desiredLength s
   \<and> m_action (snd (curveLength s k)) = m_action s
   \<and> m_success (snd (curveLength s k)) = m_success s
   \<and> m_segmentIndex (snd (curveLength s k)) = m_segmentIndex s
   \<and> m_normalAngle (snd (curveLength s k)) = m_normalAngle s"
  by (simp add: moveTo_def lineTo_def closeSubpath_def quadraticBezierTo_def cubicBezierTo_def
        curveLength_def Let_def split_beta curveLoop_bookkeeping)

subsection \<open>Segment lengths are not negative\<close>




subsection \<open>Success of a point or angle query\<close>



end
